theory Spec2Isabelle
  imports Complex_Main "HOL-Library.Multiset"
begin

section \<open>Binary classification metrics (src/LightGBM/metric/binary_metric.hpp)\<close>

text \<open>
  The C++ type \<^verbatim>\<open>double\<close> (and \<^verbatim>\<open>label_t\<close>) is idealised as \<^typ>\<open>real\<close>: rounding,
  infinities and NaN are outside this development. A raw pointer
  (\<^verbatim>\<open>const double* score\<close>, \<^verbatim>\<open>const label_t* label_\<close>) is a function from indices to
  values; it is only ever read below \<^verbatim>\<open>num_data_\<close>. The row count \<^verbatim>\<open>data_size_t\<close> is a
  natural number: a data set has no negative number of rows.
\<close>

subsection \<open>Point-wise losses\<close>

text \<open>
  \<^verbatim>\<open>BinaryLoglossMetric::LossOnPoint\<close>. The constant \<^verbatim>\<open>kEpsilon\<close> is declared in a header
  that is not part of the sources at hand, so it is a parameter.
\<close>

definition BinaryLoglossMetric_LossOnPoint :: "real \<Rightarrow> real \<Rightarrow> real \<Rightarrow> real" where
  "BinaryLoglossMetric_LossOnPoint kEpsilon label prob =
     (if label \<le> 0 then
        (if 1 - prob > kEpsilon then - ln (1 - prob) else - ln kEpsilon)
      else
        (if prob > kEpsilon then - ln prob else - ln kEpsilon))"

text \<open>\<^verbatim>\<open>BinaryErrorMetric::LossOnPoint\<close>: the comparison results are converted to 0 or 1.\<close>

definition BinaryErrorMetric_LossOnPoint :: "real \<Rightarrow> real \<Rightarrow> real" where
  "BinaryErrorMetric_LossOnPoint label prob =
     (if prob \<le> 0.5 then of_bool (label > 0) else of_bool (label \<le> 0))"

text \<open>
  The template parameter \<^verbatim>\<open>PointWiseLossCalculator\<close> of \<^verbatim>\<open>BinaryMetric\<close>: a class with
  the two static members \<^verbatim>\<open>LossOnPoint\<close> and \<^verbatim>\<open>Name\<close>.
\<close>

record PointWiseLossCalculator =
  LossOnPoint :: "real \<Rightarrow> real \<Rightarrow> real"
  Name :: string

definition BinaryLoglossMetric :: "real \<Rightarrow> PointWiseLossCalculator" where
  "BinaryLoglossMetric kEpsilon =
     \<lparr>LossOnPoint = BinaryLoglossMetric_LossOnPoint kEpsilon, Name = ''binary_logloss''\<rparr>"

definition BinaryErrorMetric :: PointWiseLossCalculator where
  "BinaryErrorMetric = \<lparr>LossOnPoint = BinaryErrorMetric_LossOnPoint, Name = ''binary_error''\<rparr>"

subsection \<open>Collaborators of the metric\<close>

text \<open>
  \<^verbatim>\<open>Log::Fatal\<close> throws, so the function that calls it returns no value: it is an error
  result carrying the message. \<^verbatim>\<open>OutOfRange\<close> stands for the read of element 0 of an
  empty \<^verbatim>\<open>std::vector\<close>, which C++ leaves undefined.
\<close>

datatype error = Fatal string | OutOfRange

text \<open>\<^verbatim>\<open>Metadata\<close>: only the two accessors that \<^verbatim>\<open>Init\<close> calls; \<^verbatim>\<open>weights()\<close> may be null.\<close>

record Metadata =
  metadata_label :: "nat \<Rightarrow> real"
  metadata_weights :: "(nat \<Rightarrow> real) option"

text \<open>
  \<^verbatim>\<open>REModel::Predict\<close> as \<^verbatim>\<open>Eval\<close> calls it: every argument but the number of data
  points and the offset (the last argument, \<^verbatim>\<open>score\<close>) is a constant of the call site;
  the function yields the contents of the output buffer \<^verbatim>\<open>re_prop_pred\<close>.
\<close>

record REModel =
  Predict :: "nat \<Rightarrow> (nat \<Rightarrow> real) \<Rightarrow> (nat \<Rightarrow> real)"

text \<open>
  The part of the interface \<^verbatim>\<open>ObjectiveFunction\<close> that the metrics use.
  \<^verbatim>\<open>ConvertOutput(&score[i], &prob)\<close> reads one score and writes one probability.
\<close>

record ObjectiveFunction =
  HasGPModel :: bool
  UseGPModelForValidation :: bool
  GetGPModel :: REModel
  ConvertOutput :: "real \<Rightarrow> real"

text \<open>
  The calls that an evaluation makes to \<^verbatim>\<open>REModel::Predict\<close> and to
  \<^verbatim>\<open>ObjectiveFunction::ConvertOutput\<close> are recorded, with their arguments, in a log
  that is threaded through the evaluation.
\<close>

datatype call = REModel_Predict nat "nat \<Rightarrow> real" | ObjectiveFunction_ConvertOutput real

definition call_ConvertOutput :: "ObjectiveFunction \<Rightarrow> real \<Rightarrow> call list \<Rightarrow> real \<times> call list" where
  "call_ConvertOutput objective x calls =
     (ConvertOutput objective x, calls @ [ObjectiveFunction_ConvertOutput x])"

definition call_Predict ::
  "REModel \<Rightarrow> nat \<Rightarrow> (nat \<Rightarrow> real) \<Rightarrow> call list \<Rightarrow> (nat \<Rightarrow> real) \<times> call list" where
  "call_Predict re_model num_data score calls =
     (Predict re_model num_data score, calls @ [REModel_Predict num_data score])"

subsection \<open>The members of a metric and \<^verbatim>\<open>Init\<close>\<close>

text \<open>
  \<^verbatim>\<open>BinaryMetric\<close> and \<^verbatim>\<open>AUCMetric\<close> declare the same private members;
  \<^verbatim>\<open>metric_for_train_data_\<close> is inherited from the base class \<^verbatim>\<open>Metric\<close>. A member
  \<^verbatim>\<open>x_\<close> of the class is the field \<open>this_x\<close> of the record. The two \<^verbatim>\<open>Init\<close> functions
  differ in the name they append to \<^verbatim>\<open>name_\<close> only.
\<close>

record Metric =
  this_num_data :: nat
  this_label :: "nat \<Rightarrow> real"
  this_weights :: "(nat \<Rightarrow> real) option"
  this_sum_weights :: real
  this_name :: "string list"
  this_metric_for_train_data :: bool

definition Metric_Init :: "string \<Rightarrow> Metadata \<Rightarrow> nat \<Rightarrow> Metric \<Rightarrow> Metric" where
  "Metric_Init metric_name metadata num_data m =
     m\<lparr>this_name := this_name m @ [metric_name],
       this_num_data := num_data,
       this_label := metadata_label metadata,
       this_weights := metadata_weights metadata,
       this_sum_weights :=
         (case metadata_weights metadata of
            None \<Rightarrow> real num_data
          | Some w \<Rightarrow> fold (\<lambda>i sum_weights. sum_weights + w i) [0..<num_data] 0)\<rparr>"

definition BinaryMetric_Init :: "PointWiseLossCalculator \<Rightarrow> Metadata \<Rightarrow> nat \<Rightarrow> Metric \<Rightarrow> Metric" where
  "BinaryMetric_Init calc metadata num_data m = Metric_Init (Name calc) metadata num_data m"

definition AUCMetric_Init :: "Metadata \<Rightarrow> nat \<Rightarrow> Metric \<Rightarrow> Metric" where
  "AUCMetric_Init metadata num_data m = Metric_Init ''auc'' metadata num_data m"

subsection \<open>\<^verbatim>\<open>BinaryMetric::Eval\<close>\<close>

text \<open>
  Each of the five loops adds to \<^verbatim>\<open>sum_loss\<close>; the loop state is the pair of the sum
  and the call log. The OpenMP reduction adds the same terms in some other order, which
  makes no difference to a sum of reals.
\<close>

definition Eval_return :: "Metric \<Rightarrow> real \<times> call list \<Rightarrow> (error + real list) \<times> call list" where
  "Eval_return m st =
     (case st of (sum_loss, calls) \<Rightarrow>
        (let loss = sum_loss / this_sum_weights m in (Inr [loss], calls)))"

definition BinaryMetric_Eval ::
  "PointWiseLossCalculator \<Rightarrow> Metric \<Rightarrow> (nat \<Rightarrow> real) \<Rightarrow> ObjectiveFunction option
     \<Rightarrow> (error + real list) \<times> call list" where
  "BinaryMetric_Eval calc m score objective =
     (case objective of
        None \<Rightarrow>
          (case this_weights m of
             None \<Rightarrow>
               Eval_return m
                 (fold (\<lambda>i (sum_loss, calls).
                          (sum_loss + LossOnPoint calc (this_label m i) (score i), calls))
                    [0..<this_num_data m] (0, []))
           | Some w \<Rightarrow>
               Eval_return m
                 (fold (\<lambda>i (sum_loss, calls).
                          (sum_loss + LossOnPoint calc (this_label m i) (score i) * w i, calls))
                    [0..<this_num_data m] (0, [])))
      | Some obj \<Rightarrow>
          (case this_weights m of
             None \<Rightarrow>
               if HasGPModel obj \<and> UseGPModelForValidation obj then
                 if this_metric_for_train_data m then
                   (Inl (Fatal ''Cannot use the option 'use_gp_model_for_validation = true' for calculating the training data loss''), [])
                 else
                   (let re_model = GetGPModel obj;
                        (re_prop_pred, calls) = call_Predict re_model (this_num_data m) score []
                    in Eval_return m
                         (fold (\<lambda>i (sum_loss, calls).
                                  (sum_loss + LossOnPoint calc (this_label m i) (re_prop_pred i), calls))
                            [0..<this_num_data m] (0, calls)))
               else
                 Eval_return m
                   (fold (\<lambda>i (sum_loss, calls).
                            (let (prob, calls) = call_ConvertOutput obj (score i) calls
                             in (sum_loss + LossOnPoint calc (this_label m i) prob, calls)))
                      [0..<this_num_data m] (0, []))
           | Some w \<Rightarrow>
               Eval_return m
                 (fold (\<lambda>i (sum_loss, calls).
                          (let (prob, calls) = call_ConvertOutput obj (score i) calls
                           in (sum_loss + LossOnPoint calc (this_label m i) prob * w i, calls)))
                    [0..<this_num_data m] (0, []))))"

subsection \<open>\<^verbatim>\<open>AUCMetric::Eval\<close>\<close>

text \<open>The local variables of \<^verbatim>\<open>AUCMetric::Eval\<close> that its loops update.\<close>

record auc_state =
  cur_pos :: real
  sum_pos :: real
  accum :: real
  cur_neg :: real
  threshold :: real

text \<open>The block under \<^verbatim>\<open>if (cur_score != threshold)\<close>, the same in both loops.\<close>

definition new_threshold :: "real \<Rightarrow> auc_state \<Rightarrow> auc_state" where
  "new_threshold cur_score st =
     (if cur_score \<noteq> threshold st then
        st\<lparr>threshold := cur_score,
           accum := accum st + cur_neg st * (cur_pos st * 0.5 + sum_pos st),
           sum_pos := sum_pos st + cur_pos st,
           cur_neg := 0,
           cur_pos := 0\<rparr>
      else st)"

definition auc_step_no_weights ::
  "Metric \<Rightarrow> (nat \<Rightarrow> real) \<Rightarrow> nat list \<Rightarrow> nat \<Rightarrow> auc_state \<Rightarrow> auc_state" where
  "auc_step_no_weights m score sorted_idx i st =
     (let cur_label = this_label m (sorted_idx ! i);
          cur_score = score (sorted_idx ! i);
          st = new_threshold cur_score st
      in st\<lparr>cur_neg := cur_neg st + of_bool (cur_label \<le> 0),
            cur_pos := cur_pos st + of_bool (cur_label > 0)\<rparr>)"

definition auc_step_has_weights ::
  "Metric \<Rightarrow> (nat \<Rightarrow> real) \<Rightarrow> (nat \<Rightarrow> real) \<Rightarrow> nat list \<Rightarrow> nat \<Rightarrow> auc_state \<Rightarrow> auc_state" where
  "auc_step_has_weights m w score sorted_idx i st =
     (let cur_label = this_label m (sorted_idx ! i);
          cur_score = score (sorted_idx ! i);
          cur_weight = w (sorted_idx ! i);
          st = new_threshold cur_score st
      in st\<lparr>cur_neg := cur_neg st + of_bool (cur_label \<le> 0) * cur_weight,
            cur_pos := cur_pos st + of_bool (cur_label > 0) * cur_weight\<rparr>)"

text \<open>
  \<^verbatim>\<open>Common::ParallelSort\<close> is defined in a header that is not part of the sources at
  hand, so the sorting function is a parameter: it takes the comparison and the vector
  of indices \<open>0, \<dots>, num_data_ - 1\<close> and yields the vector after sorting in place.
  Reading \<^verbatim>\<open>sorted_idx[0]\<close> when the vector is empty is the error \<^const>\<open>OutOfRange\<close>.
  The objective function is not used.
\<close>

definition AUCMetric_Eval ::
  "((nat \<Rightarrow> nat \<Rightarrow> bool) \<Rightarrow> nat list \<Rightarrow> nat list) \<Rightarrow> Metric \<Rightarrow> (nat \<Rightarrow> real)
     \<Rightarrow> ObjectiveFunction option \<Rightarrow> error + real list" where
  "AUCMetric_Eval ParallelSort m score objective =
     (let sorted_idx = ParallelSort (\<lambda>a b. score a > score b) [0..<this_num_data m]
      in if sorted_idx = [] then Inl OutOfRange
         else
           (let st = \<lparr>cur_pos = 0, sum_pos = 0, accum = 0, cur_neg = 0,
                      threshold = score (sorted_idx ! 0)\<rparr>;
                st = (case this_weights m of
                        None \<Rightarrow>
                          fold (auc_step_no_weights m score sorted_idx) [0..<this_num_data m] st
                      | Some w \<Rightarrow>
                          fold (auc_step_has_weights m w score sorted_idx) [0..<this_num_data m] st);
                st = st\<lparr>accum := accum st + cur_neg st * (cur_pos st * 0.5 + sum_pos st),
                        sum_pos := sum_pos st + cur_pos st\<rparr>;
                auc = (if sum_pos st > 0 \<and> sum_pos st \<noteq> this_sum_weights m
                       then accum st / (sum_pos st * (this_sum_weights m - sum_pos st))
                       else 1)
            in Inr [auc]))"

text \<open>
  A sorting function to run the evaluation with: insertion sort by the comparison
  \<open>comes_first\<close>, where \<open>comes_first a b\<close> says that \<open>a\<close> has to come before \<open>b\<close>.
\<close>

fun insert_by :: "('a \<Rightarrow> 'a \<Rightarrow> bool) \<Rightarrow> 'a \<Rightarrow> 'a list \<Rightarrow> 'a list" where
  "insert_by comes_first x [] = [x]"
| "insert_by comes_first x (y # ys) =
     (if comes_first y x then y # insert_by comes_first x ys else x # y # ys)"

definition insertion_sort_by :: "('a \<Rightarrow> 'a \<Rightarrow> bool) \<Rightarrow> 'a list \<Rightarrow> 'a list" where
  "insertion_sort_by comes_first xs = foldr (insert_by comes_first) xs []"

subsection \<open>A small data set to run the metrics on\<close>

text \<open>
  A metric object as its constructor leaves it (the constructors set no member);
  \<^verbatim>\<open>metric_for_train_data_\<close> is set by the owner of the metric.
\<close>

definition new_Metric :: "bool \<Rightarrow> Metric" where
  "new_Metric for_train_data =
     \<lparr>this_num_data = 0, this_label = (\<lambda>i. 0), this_weights = None, this_sum_weights = 0,
      this_name = [], this_metric_for_train_data = for_train_data\<rparr>"

text \<open>Two data points: labels 1 and 0, scores 0.9 and 0.7, weights 1 and 3.\<close>

definition ex_label :: "nat \<Rightarrow> real" where
  "ex_label i = (if i = 0 then 1 else 0)"

definition ex_score :: "nat \<Rightarrow> real" where
  "ex_score i = (if i = 0 then 9 / 10 else 7 / 10)"

definition ex_weights :: "nat \<Rightarrow> real" where
  "ex_weights i = (if i = 0 then 1 else 3)"

definition ex_metadata :: Metadata where
  "ex_metadata = \<lparr>metadata_label = ex_label, metadata_weights = None\<rparr>"

definition ex_metadata_weighted :: Metadata where
  "ex_metadata_weighted = \<lparr>metadata_label = ex_label, metadata_weights = Some ex_weights\<rparr>"

text \<open>
  An objective with a random-effects model that is to be used for validation. Its model
  lowers by 0.8 every score above 0.8; its output conversion leaves a score as it is.
\<close>

definition ex_Predict :: "nat \<Rightarrow> (nat \<Rightarrow> real) \<Rightarrow> (nat \<Rightarrow> real)" where
  "ex_Predict num_data offset i = (if offset i > 8 / 10 then offset i - 8 / 10 else offset i)"

definition ex_ConvertOutput :: "real \<Rightarrow> real" where
  "ex_ConvertOutput x = x"

definition ex_objective :: ObjectiveFunction where
  "ex_objective =
     \<lparr>HasGPModel = True, UseGPModelForValidation = True,
      GetGPModel = \<lparr>Predict = ex_Predict\<rparr>, ConvertOutput = ex_ConvertOutput\<rparr>"

text \<open>Three data points of one class each, with scores 0.2, 0.9 and 0.2.\<close>

definition ex_label_negative :: "nat \<Rightarrow> real" where
  "ex_label_negative i = 0"

definition ex_label_positive :: "nat \<Rightarrow> real" where
  "ex_label_positive i = 1"

definition ex_score3 :: "nat \<Rightarrow> real" where
  "ex_score3 i = (if i = 1 then 9 / 10 else 2 / 10)"

section \<open>The latent-effects covariance engine\<close>

text \<open>
  The sources at hand hold the metrics above and the R and Python examples of the
  documentation; the covariance components, the composite model, the optimizer and the
  prediction of the random-effects model are not among them. The definitions of this
  section follow the specification instead, and each one says so.
\<close>

subsection \<open>Vectors and matrices\<close>

text \<open>
  Modelled from the spec: the vectors and matrices of its formulas. A vector is a list of
  reals, a matrix the list of its rows.
\<close>

type_synonym vec = "real list"
type_synonym matrix = "real list list"

definition dot :: "vec \<Rightarrow> vec \<Rightarrow> real" where
  "dot xs ys = sum_list (map2 (*) xs ys)"

definition mat_vec :: "matrix \<Rightarrow> vec \<Rightarrow> vec" where
  "mat_vec A v = map (\<lambda>row. dot row v) A"

definition mat_mult :: "matrix \<Rightarrow> matrix \<Rightarrow> matrix" where
  "mat_mult A B = map (\<lambda>row. map (dot row) (transpose B)) A"

definition mat_add :: "matrix \<Rightarrow> matrix \<Rightarrow> matrix" where
  "mat_add A B = map2 (map2 (+)) A B"

definition mat_sub :: "matrix \<Rightarrow> matrix \<Rightarrow> matrix" where
  "mat_sub A B = map2 (map2 (-)) A B"

definition mat_scale :: "real \<Rightarrow> matrix \<Rightarrow> matrix" where
  "mat_scale c A = map (map ((*) c)) A"

definition identity :: "nat \<Rightarrow> matrix" where
  "identity n = map (\<lambda>i. map (\<lambda>j. if i = j then 1 else 0) [0..<n]) [0..<n]"

text \<open>
  Modelled from the spec: the product \<open>Z C Z\<^sup>t\<close> of an incidence matrix with a covariance
  block.
\<close>

definition sandwich :: "matrix \<Rightarrow> matrix \<Rightarrow> matrix" where
  "sandwich Z C = mat_mult (mat_mult Z C) (transpose Z)"

subsection \<open>Covariance components\<close>

text \<open>Modelled from the spec: the error kinds of its section on error handling.\<close>

datatype error_kind =
  InvalidParameter | FactorizationFailure | OptimizerNonConvergence | ConfigurationConflict

text \<open>
  Modelled from the spec: the tagged variant \<^verbatim>\<open>CovarianceComponent\<close> of the data model,
  which is not among the sources. A kernel holds its type, the coordinates of the
  samples, the range and the marginal variance it was constructed with; a grouped
  effect holds the grouping key of every sample, the optional random-slope covariate
  and the variance it was constructed with. The variant \<^verbatim>\<open>Sum\<close> is the list of
  components that the composite model owns; nesting and crossing are left out.
\<close>

datatype kernel_type = exponential | squared_exponential

datatype CovarianceComponent =
  Kernel kernel_type "vec list" real real
| GroupedEffect "nat list" "vec option" real

text \<open>
  Modelled from the spec: construction validates the parameters. A kernel needs a
  strictly positive range and marginal variance; a grouped effect needs at least two
  distinct levels, a strictly positive variance and, if it has a random slope, one
  covariate value per sample.
\<close>

definition new_Kernel ::
  "kernel_type \<Rightarrow> vec list \<Rightarrow> real \<Rightarrow> real \<Rightarrow> error_kind + CovarianceComponent" where
  "new_Kernel type coords rho sigma2_1 =
     (if rho \<le> 0 \<or> sigma2_1 \<le> 0 then Inl InvalidParameter
      else Inr (Kernel type coords rho sigma2_1))"

definition new_GroupedEffect ::
  "nat list \<Rightarrow> vec option \<Rightarrow> real \<Rightarrow> error_kind + CovarianceComponent" where
  "new_GroupedEffect group_data slope variance =
     (if length (remdups group_data) < 2 then Inl InvalidParameter
      else if variance \<le> 0 then Inl InvalidParameter
      else if (case slope of None \<Rightarrow> False | Some x \<Rightarrow> length x \<noteq> length group_data)
        then Inl InvalidParameter
      else Inr (GroupedEffect group_data slope variance))"

text \<open>
  Modelled from the spec: the distance of two inputs is the Euclidean one, as that of
  \<^verbatim>\<open>dist\<close> in the R example; a kernel is a decreasing function of the scaled distance.
\<close>

definition distance :: "vec \<Rightarrow> vec \<Rightarrow> real" where
  "distance s t = sqrt (sum_list (map2 (\<lambda>a b. (a - b)\<^sup>2) s t))"

fun kernel_function :: "kernel_type \<Rightarrow> real \<Rightarrow> real" where
  "kernel_function exponential x = exp (- x)"
| "kernel_function squared_exponential x = exp (- x\<^sup>2)"

text \<open>
  Modelled from the spec: \<^verbatim>\<open>BuildCovariance\<close> on the current hyperparameters of the
  component, validated again (the gradient that the contract also returns is left out).
  A kernel takes the marginal variance and the range and yields
  \<open>\<sigma>\<^sub>1\<^sup>2 \<cdot> k(d(s\<^sub>i, s\<^sub>j) / \<rho>)\<close>; a grouped effect takes its variance and yields the
  diagonal matrix over the distinct levels.
\<close>

fun BuildCovariance :: "CovarianceComponent \<Rightarrow> vec \<Rightarrow> error_kind + matrix" where
  "BuildCovariance (Kernel type coords _ _) [sigma2_1, rho] =
     (if sigma2_1 \<le> 0 \<or> rho \<le> 0 then Inl InvalidParameter
      else Inr (map (\<lambda>s_i. map (\<lambda>s_j. sigma2_1 * kernel_function type (distance s_i s_j / rho))
                                coords) coords))"
| "BuildCovariance (GroupedEffect group_data slope _) [variance] =
     (if variance \<le> 0 then Inl InvalidParameter
      else Inr (mat_scale variance (identity (length (remdups group_data)))))"
| "BuildCovariance _ _ = Inl InvalidParameter"

text \<open>
  Modelled from the spec: the incidence matrix of a component, one row per sample. For a
  kernel every sample is its own location; for a grouped effect the row of a sample has
  a 1, or the value of the random-slope covariate, in the column of its level.
\<close>

fun BuildIncidence :: "CovarianceComponent \<Rightarrow> matrix" where
  "BuildIncidence (Kernel type coords _ _) = identity (length coords)"
| "BuildIncidence (GroupedEffect group_data slope _) =
     map2 (\<lambda>key x. map (\<lambda>level. if key = level then x else 0) (remdups group_data))
       group_data (case slope of None \<Rightarrow> replicate (length group_data) 1 | Some x \<Rightarrow> x)"

fun num_params :: "CovarianceComponent \<Rightarrow> nat" where
  "num_params (Kernel _ _ _ _) = 2"
| "num_params (GroupedEffect _ _ _) = 1"

text \<open>
  The R example (chunk \<^verbatim>\<open>simulate_data\<close>) builds the matrix \<^verbatim>\<open>Sigma\<close> from the matrix
  \<^verbatim>\<open>D\<close> of the distances of all locations, with \<open>10\<^sup>-\<^sup>1\<^sup>0\<close> added on the diagonal; the
  covariance function is \<^verbatim>\<open>"exponential"\<close> or \<^verbatim>\<open>"gaussian"\<close>, and for any other name
  \<^verbatim>\<open>Sigma\<close> is not defined. The simulated process is \<^verbatim>\<open>sqrt(sigma2_1) * C %*% rnorm(n_all)\<close>
  with \<^verbatim>\<open>C\<close> the Cholesky factor of \<^verbatim>\<open>Sigma\<close>, so that its covariance is \<^verbatim>\<open>sigma2_1 * Sigma\<close>.
\<close>

definition simulate_Sigma :: "string \<Rightarrow> real \<Rightarrow> vec list \<Rightarrow> matrix option" where
  "simulate_Sigma cov_function rho coords_all =
     (let n_all = length coords_all;
          D = map (\<lambda>s. map (distance s) coords_all) coords_all
      in if cov_function = ''exponential'' then
           Some (mat_add (map (map (\<lambda>d. exp (- d / rho))) D)
                         (mat_scale (1 / 10 ^ 10) (identity n_all)))
         else if cov_function = ''gaussian'' then
           Some (mat_add (map (map (\<lambda>d. exp (- (d / rho)\<^sup>2))) D)
                         (mat_scale (1 / 10 ^ 10) (identity n_all)))
         else None)"

subsection \<open>The composite covariance model\<close>

text \<open>
  Modelled from the spec: \<^verbatim>\<open>CompositeCovarianceModel\<close> owns the components;
  \<^verbatim>\<open>Assemble\<close> takes the hyperparameter vector, the error variance first and then the
  parameters of each component in turn, and derives
  \<open>\<Sigma>(\<theta>) = \<Sum>\<^sub>k Z\<^sub>k Cov\<^sub>k(\<theta>\<^sub>k) Z\<^sub>k\<^sup>t + \<sigma>\<^sup>2 I\<close>, adding one component after the other.
\<close>

record CompositeCovarianceModel =
  num_samples :: nat
  components :: "CovarianceComponent list"

definition assemble_component :: "CovarianceComponent \<Rightarrow> vec \<Rightarrow> error_kind + matrix" where
  "assemble_component c theta_k =
     (case BuildCovariance c theta_k of
        Inl e \<Rightarrow> Inl e
      | Inr Cov_k \<Rightarrow> Inr (sandwich (BuildIncidence c) Cov_k))"

fun assemble_components ::
  "CovarianceComponent list \<Rightarrow> vec \<Rightarrow> matrix \<Rightarrow> error_kind + matrix" where
  "assemble_components [] theta Sigma_acc = (if theta = [] then Inr Sigma_acc else Inl InvalidParameter)"
| "assemble_components (c # cs) theta Sigma_acc =
     (case assemble_component c (take (num_params c) theta) of
        Inl e \<Rightarrow> Inl e
      | Inr S \<Rightarrow> assemble_components cs (drop (num_params c) theta) (mat_add Sigma_acc S))"

definition Assemble :: "CompositeCovarianceModel \<Rightarrow> vec \<Rightarrow> error_kind + matrix" where
  "Assemble model theta =
     (case theta of
        [] \<Rightarrow> Inl InvalidParameter
      | sigma2 # rest \<Rightarrow>
          if sigma2 \<le> 0 then Inl InvalidParameter
          else assemble_components (components model) rest
                 (mat_scale sigma2 (identity (num_samples model))))"

subsection \<open>Prediction\<close>

text \<open>
  Modelled from the spec: the state of a fitted random-effects model that a prediction
  reads, the inverse of \<open>\<Sigma>(\<theta>)\<close> (which stands for its cached factorization) and the
  residual at the training points; and what the new inputs contribute, their
  cross-covariance with the training points (one row per new point) and the covariance
  among themselves.
\<close>

record RandomEffectsModel =
  Sigma_inverse :: matrix
  residual :: vec

record query =
  cross_covariance :: matrix
  new_covariance :: matrix

record posterior =
  posterior_mean :: vec
  posterior_covariance :: "matrix option"

text \<open>
  Modelled from the spec: \<^verbatim>\<open>Predict(newCoordsOrGroups, predictCovariance)\<close> of the
  random-effects model, by the conditional-Gaussian formulas. The mean is the
  cross-covariance times \<open>\<Sigma>\<^sup>-\<^sup>1\<close> times the training residual; the covariance, computed only
  on request, is the covariance of the new points minus cross \<open>\<cdot> \<Sigma>\<^sup>-\<^sup>1 \<cdot>\<close> cross\<open>\<^sup>t\<close>. (The
  spec writes "cross-covariance minus cross \<open>\<cdot> \<Sigma>\<^sup>-\<^sup>1 \<cdot>\<close> cross\<open>\<^sup>t\<close>"; the difference has one row
  and one column per new point, so its first term is the covariance among the new points.)
\<close>

definition RandomEffectsModel_Predict :: "RandomEffectsModel \<Rightarrow> query \<Rightarrow> bool \<Rightarrow> posterior" where
  "RandomEffectsModel_Predict re_model q predictCovariance =
     \<lparr>posterior_mean = mat_vec (cross_covariance q) (mat_vec (Sigma_inverse re_model) (residual re_model)),
      posterior_covariance =
        (if predictCovariance
         then Some (mat_sub (new_covariance q) (sandwich (cross_covariance q) (Sigma_inverse re_model)))
         else None)\<rparr>"

text \<open>
  Modelled from the spec: the prediction output, with the field names that the R example
  reads (\<^verbatim>\<open>pred$fixed_effect\<close>, \<^verbatim>\<open>pred$random_effect_mean\<close>, \<^verbatim>\<open>pred$random_effect_cov\<close>).
  The function \<^verbatim>\<open>predict\<close> itself is not among the sources; the prediction of the tree
  ensemble is a parameter.
\<close>

record prediction =
  fixed_effect :: vec
  random_effect_mean :: vec
  random_effect_cov :: "matrix option"

definition predict ::
  "(matrix \<Rightarrow> vec) \<Rightarrow> RandomEffectsModel \<Rightarrow> matrix \<Rightarrow> query \<Rightarrow> bool \<Rightarrow> prediction" where
  "predict tree_Predict re_model data gp_coords_pred predict_cov_mat =
     (let p = RandomEffectsModel_Predict re_model gp_coords_pred predict_cov_mat
      in \<lparr>fixed_effect = tree_Predict data,
          random_effect_mean = posterior_mean p,
          random_effect_cov = posterior_covariance p\<rparr>)"

text \<open>
  The R example, \<^verbatim>\<open>y_pred <- pred$fixed_effect + pred$random_effect_mean\<close>: the sum of two
  vectors with one entry per prediction point.
\<close>

definition y_pred :: "prediction \<Rightarrow> vec" where
  "y_pred pred = map2 (+) (fixed_effect pred) (random_effect_mean pred)"

subsection \<open>The covariance optimizer\<close>

text \<open>
  Modelled from the spec: the state machine of \<^verbatim>\<open>CovarianceOptimizer\<close>, which is not among
  the sources. The likelihood engine is a parameter: at a hyperparameter vector it
  yields the log-likelihood and the step direction (the gradient, or the solution of the
  Fisher-information system), or nothing when the factorization fails.
\<close>

datatype optimizer_status = Init | Iterate | Converged | MaxIterReached | Diverged

type_synonym likelihood_engine = "vec \<Rightarrow> (real \<times> vec) option"

record optimizer_config =
  learning_rate :: real
  use_momentum :: bool
  momentum_rate :: real
  tolerance :: real
  max_iterations :: nat
  max_failures :: nat

text \<open>
  Modelled from the spec: the state of the optimizer. It holds the last valid \<open>\<theta>\<close> and
  its predecessor, the log-likelihood at \<open>\<theta>\<close>, the current step size and momentum rate
  (both shrink after a failed factorization), the number of consecutive failures, the
  iteration count and the non-fatal conditions reported to the caller.
\<close>

record optimizer_state =
  status :: optimizer_status
  theta :: vec
  theta_prev :: vec
  log_likelihood :: real
  step_size :: real
  momentum :: real
  failures :: nat
  iteration :: nat
  diagnostics :: "error_kind list"

definition optimizer_init :: "optimizer_config \<Rightarrow> vec \<Rightarrow> optimizer_state" where
  "optimizer_init cfg theta0 =
     \<lparr>status = Init, theta = theta0, theta_prev = theta0, log_likelihood = 0,
      step_size = learning_rate cfg, momentum = momentum_rate cfg, failures = 0,
      iteration = 0, diagnostics = []\<rparr>"

text \<open>
  Modelled from the spec: the look-ahead point \<open>v\<^sub>t = \<theta>\<^sub>t + acc_rate \<cdot> (\<theta>\<^sub>t - \<theta>\<^sub>t\<^sub>-\<^sub>1)\<close> of
  Nesterov momentum.
\<close>

definition look_ahead :: "optimizer_config \<Rightarrow> optimizer_state \<Rightarrow> vec" where
  "look_ahead cfg s =
     (if use_momentum cfg
      then map2 (+) (theta s) (map ((*) (momentum s)) (map2 (-) (theta s) (theta_prev s)))
      else theta s)"

text \<open>
  Modelled from the spec: a failed factorization. The step and the momentum shrink and
  \<open>\<theta>\<close> stays; at the configured number of consecutive failures the optimizer halts in
  \<^const>\<open>Diverged\<close>.
\<close>

definition factorization_failed :: "optimizer_config \<Rightarrow> optimizer_state \<Rightarrow> optimizer_state" where
  "factorization_failed cfg s =
     (if max_failures cfg \<le> Suc (failures s) then
        s\<lparr>status := Diverged, failures := Suc (failures s),
          diagnostics := diagnostics s @ [FactorizationFailure, OptimizerNonConvergence]\<rparr>
      else
        s\<lparr>failures := Suc (failures s), step_size := step_size s / 2,
          momentum := momentum s / 2, iteration := Suc (iteration s),
          diagnostics := diagnostics s @ [FactorizationFailure]\<rparr>)"

text \<open>
  Modelled from the spec: one transition out of \<^const>\<open>Iterate\<close>. The direction is taken at
  the look-ahead point, the candidate is evaluated, and it replaces \<open>\<theta>\<close> only if its
  evaluation succeeds and the log-likelihood has not decreased beyond the tolerance; the
  run has converged when the change of the log-likelihood or of \<open>\<theta>\<close> is below the
  tolerance.
\<close>

definition optimizer_step ::
  "optimizer_config \<Rightarrow> likelihood_engine \<Rightarrow> optimizer_state \<Rightarrow> optimizer_state" where
  "optimizer_step cfg evaluate s =
     (if max_iterations cfg \<le> iteration s then
        s\<lparr>status := MaxIterReached, diagnostics := diagnostics s @ [OptimizerNonConvergence]\<rparr>
      else
        (case evaluate (look_ahead cfg s) of
           None \<Rightarrow> factorization_failed cfg s
         | Some (_, g) \<Rightarrow>
             (let candidate = map2 (+) (look_ahead cfg s) (map ((*) (step_size s)) g)
              in case evaluate candidate of
                   None \<Rightarrow> factorization_failed cfg s
                 | Some (ll, _) \<Rightarrow>
                     if ll < log_likelihood s - tolerance cfg then
                       s\<lparr>status := Diverged,
                         diagnostics := diagnostics s @ [OptimizerNonConvergence]\<rparr>
                     else if \<bar>ll - log_likelihood s\<bar> < tolerance cfg
                          \<or> list_all2 (\<lambda>a b. \<bar>a - b\<bar> < tolerance cfg) candidate (theta s) then
                       s\<lparr>status := Converged, theta := candidate, theta_prev := theta s,
                         log_likelihood := ll, iteration := Suc (iteration s)\<rparr>
                     else
                       s\<lparr>theta := candidate, theta_prev := theta s, log_likelihood := ll,
                         failures := 0, iteration := Suc (iteration s)\<rparr>)))"

text \<open>
  Modelled from the spec: the transitions are taken while the state is \<^const>\<open>Iterate\<close>.
  Every transition that stays in \<^const>\<open>Iterate\<close> counts one iteration, and none is taken
  from the bound \<open>max_iterations\<close> on, so the loop ends.
\<close>

function optimize_loop ::
  "optimizer_config \<Rightarrow> likelihood_engine \<Rightarrow> optimizer_state \<Rightarrow> optimizer_state" where
  "optimize_loop cfg evaluate s =
     (if status s = Iterate then optimize_loop cfg evaluate (optimizer_step cfg evaluate s)
      else s)"
  by pat_completeness auto
termination
  by (relation "measure (\<lambda>(cfg, evaluate, s).
         if status s = Iterate then Suc (max_iterations cfg - iteration s) else 0)")
     (auto simp: optimizer_step_def factorization_failed_def Let_def
        split: if_splits option.splits prod.splits)

text \<open>
  Modelled from the spec: a run of the optimizer. The initial \<open>\<theta>\<close> is evaluated
  (\<^const>\<open>Init\<close> to \<^const>\<open>Iterate\<close>) and the transitions are taken until the state is
  final. The spec names no valid \<open>\<theta>\<close> to retain when the factorization fails at the
  initial \<open>\<theta>\<close>: that failure is reported as the error of the run.
\<close>

definition CovarianceOptimizer ::
  "optimizer_config \<Rightarrow> likelihood_engine \<Rightarrow> vec \<Rightarrow> error_kind + optimizer_state" where
  "CovarianceOptimizer cfg evaluate theta0 =
     (case evaluate theta0 of
        None \<Rightarrow> Inl FactorizationFailure
      | Some (ll, _) \<Rightarrow>
          Inr (optimize_loop cfg evaluate
                 ((optimizer_init cfg theta0)\<lparr>status := Iterate, log_likelihood := ll\<rparr>)))"

text \<open>
  A state is valid when the evaluation at its \<open>\<theta>\<close> succeeds and its log-likelihood is
  the one of that evaluation.
\<close>

definition valid_state :: "likelihood_engine \<Rightarrow> optimizer_state \<Rightarrow> bool" where
  "valid_state evaluate s =
     (case evaluate (theta s) of None \<Rightarrow> False | Some (ll, g) \<Rightarrow> log_likelihood s = ll)"

subsection \<open>Inputs to run the engine on\<close>

text \<open>
  A likelihood over one hyperparameter that grows with it and whose factorization fails
  from 0.5 on, and a configuration that halts at the first failure.
\<close>

definition ex_engine :: likelihood_engine where
  "ex_engine th =
     (case th of [x] \<Rightarrow> if x < 1 / 2 then Some (x, [1]) else None | _ \<Rightarrow> None)"

definition ex_config :: optimizer_config where
  "ex_config =
     \<lparr>learning_rate = 1 / 4, use_momentum = False, momentum_rate = 1 / 2,
      tolerance = 1 / 100, max_iterations = 10, max_failures = 1\<rparr>"

text \<open>Two locations at distance 1 in one dimension, and three samples in two groups.\<close>

definition ex_coords :: "vec list" where
  "ex_coords = [[0], [1]]"

definition ex_group_data :: "nat list" where
  "ex_group_data = [7, 9, 7]"

text \<open>
  A fitted model over two training points with \<open>\<Sigma> = I / 2\<close> and residual \<open>(1, 3)\<close>, one
  new point, and a tree ensemble that predicts the sum of the features.
\<close>

definition ex_re_model :: RandomEffectsModel where
  "ex_re_model = \<lparr>Sigma_inverse = [[2, 0], [0, 2]], residual = [1, 3]\<rparr>"

definition ex_query :: query where
  "ex_query = \<lparr>cross_covariance = [[1 / 4, 0]], new_covariance = [[1 / 2]]\<rparr>"

definition ex_tree_Predict :: "matrix \<Rightarrow> vec" where
  "ex_tree_Predict data = map sum_list data"

section \<open>Properties\<close>

subsection \<open>Log loss is bounded\<close>

lemma neg_ln_bounds:
  fixes x :: real
  assumes "0 < e" "e \<le> x" "x \<le> 1"
  shows "0 \<le> - ln x" and "- ln x \<le> - ln e"
proof -
  from assms have "0 < x" by linarith
  with assms show "0 \<le> - ln x" by simp
  from assms \<open>0 < x\<close> show "- ln x \<le> - ln e" by simp
qed

lemma LossOnPoint_log_argument:
  assumes "0 < kEpsilon" "kEpsilon \<le> 1" "0 \<le> prob" "prob \<le> 1"
  shows "\<exists>x. kEpsilon \<le> x \<and> x \<le> 1 \<and> BinaryLoglossMetric_LossOnPoint kEpsilon label prob = - ln x"
proof (cases "label \<le> 0")
  case True
  show ?thesis
  proof (cases "1 - prob > kEpsilon")
    case True
    with \<open>label \<le> 0\<close> assms show ?thesis
      by (intro exI [of _ "1 - prob"]) (simp add: BinaryLoglossMetric_LossOnPoint_def)
  next
    case False
    with \<open>label \<le> 0\<close> assms show ?thesis
      by (intro exI [of _ kEpsilon]) (simp add: BinaryLoglossMetric_LossOnPoint_def)
  qed
next
  case False
  show ?thesis
  proof (cases "prob > kEpsilon")
    case True
    with \<open>\<not> label \<le> 0\<close> assms show ?thesis
      by (intro exI [of _ prob]) (simp add: BinaryLoglossMetric_LossOnPoint_def)
  next
    case False
    with \<open>\<not> label \<le> 0\<close> assms show ?thesis
      by (intro exI [of _ kEpsilon]) (simp add: BinaryLoglossMetric_LossOnPoint_def)
  qed
qed

text \<open>
  Claim C10. For every label and every probability in the unit interval, the log loss is
  the negated logarithm of some argument between \<^verbatim>\<open>kEpsilon\<close> and 1; hence it lies
  between 0 and \<open>- ln kEpsilon\<close>. The constant has to satisfy \<open>0 < kEpsilon \<le> 1\<close>.
\<close>

theorem LossOnPoint_bounded:
  assumes "0 < kEpsilon" "kEpsilon \<le> 1" "0 \<le> prob" "prob \<le> 1"
  shows "0 \<le> BinaryLoglossMetric_LossOnPoint kEpsilon label prob
       \<and> BinaryLoglossMetric_LossOnPoint kEpsilon label prob \<le> - ln kEpsilon
       \<and> (\<exists>x. kEpsilon \<le> x \<and> x \<le> 1
              \<and> BinaryLoglossMetric_LossOnPoint kEpsilon label prob = - ln x)"
proof -
  from LossOnPoint_log_argument [OF assms] obtain x where
    x: "kEpsilon \<le> x" "x \<le> 1" "BinaryLoglossMetric_LossOnPoint kEpsilon label prob = - ln x"
    by blast
  from neg_ln_bounds [OF assms(1) x(1) x(2)] x show ?thesis by auto
qed

theorem LossOnPoint_bounded_witness:
  "(0::real) < 1 / 10 ^ 15 \<and> (1::real) / 10 ^ 15 \<le> 1 \<and> (0::real) \<le> 1 \<and> (1::real) \<le> 1
   \<and> 0 \<le> BinaryLoglossMetric_LossOnPoint (1 / 10 ^ 15) 0 1
   \<and> BinaryLoglossMetric_LossOnPoint (1 / 10 ^ 15) 0 1 \<le> - ln (1 / 10 ^ 15)"
  using LossOnPoint_bounded [of "1 / 10 ^ 15" 1 0] by simp

subsection \<open>The loops of \<^verbatim>\<open>Eval\<close> as sums\<close>

lemma fold_sum_loss:
  "fold (\<lambda>i (sum_loss, calls). (sum_loss + f i, calls)) xs (s, cs)
     = (s + sum_list (map f xs), cs)"
  by (induction xs arbitrary: s) (simp_all add: add.assoc)

lemma fold_sum_loss_ConvertOutput:
  "fold (\<lambda>i (sum_loss, calls).
           (case call_ConvertOutput obj (score i) calls of
              (prob, calls) \<Rightarrow> (sum_loss + f i prob, calls))) xs (s, cs)
   = (s + sum_list (map (\<lambda>i. f i (ConvertOutput obj (score i))) xs),
      cs @ map (\<lambda>i. ObjectiveFunction_ConvertOutput (score i)) xs)"
  by (induction xs arbitrary: s cs) (simp_all add: call_ConvertOutput_def add.assoc)

lemma fold_sum_weights:
  "fold (\<lambda>i sum_weights. sum_weights + w i) xs (s::real) = s + sum_list (map w xs)"
  by (induction xs arbitrary: s) (simp_all add: add.assoc)

lemma sum_list_upt: "sum_list (map f [0..<n]) = (\<Sum>i<n. f i)"
  by (simp add: interv_sum_list_conv_sum_set_nat atLeast0LessThan)

lemma Metric_Init_sum_weights:
  "this_sum_weights (Metric_Init metric_name metadata num_data m) =
     (case metadata_weights metadata of None \<Rightarrow> real num_data | Some w \<Rightarrow> (\<Sum>i<num_data. w i))"
  by (simp add: Metric_Init_def fold_sum_weights sum_list_upt split: option.splits)

lemmas ex_defs =
  new_Metric_def ex_label_def ex_score_def ex_weights_def ex_metadata_def
  ex_metadata_weighted_def ex_Predict_def ex_ConvertOutput_def ex_objective_def
  BinaryMetric_Init_def Metric_Init_def BinaryErrorMetric_def BinaryErrorMetric_LossOnPoint_def

lemma upt_2: "[0..<2] = [0, Suc 0]"
  by (simp add: upt_rec)

subsection \<open>The configuration check of \<^verbatim>\<open>BinaryMetric::Eval\<close>\<close>

text \<open>
  Claim C1, as stated: whenever the objective has a random-effects model that is to be
  used for validation and the metric is that of the training data, \<^verbatim>\<open>Eval\<close> raises
  the fatal error and returns no value. This fails when the data set has sample weights:
  on the data set above, with weights 1 and 3, the evaluation for the training data
  returns the weighted error rate 3/4.
\<close>

theorem Eval_train_weighted_returns:
  "HasGPModel ex_objective \<and> UseGPModelForValidation ex_objective
   \<and> this_metric_for_train_data (BinaryMetric_Init BinaryErrorMetric ex_metadata_weighted 2 (new_Metric True))
   \<and> fst (BinaryMetric_Eval BinaryErrorMetric
            (BinaryMetric_Init BinaryErrorMetric ex_metadata_weighted 2 (new_Metric True))
            ex_score (Some ex_objective)) = Inr [3 / 4]"
  by (simp add: BinaryMetric_Eval_def Eval_return_def call_ConvertOutput_def ex_defs upt_2)

text \<open>
  Claim C1, amended: if there are no sample weights, the objective has a random-effects
  model that is to be used for validation, and the metric is that of the training data,
  then \<^verbatim>\<open>Eval\<close> raises the fatal error, before any call of \<^verbatim>\<open>REModel::Predict\<close> or
  \<^verbatim>\<open>ConvertOutput\<close>, and returns no metric value.
\<close>

theorem Eval_train_fatal:
  assumes "this_weights m = None" "HasGPModel obj" "UseGPModelForValidation obj"
    "this_metric_for_train_data m"
  shows "BinaryMetric_Eval calc m score (Some obj) =
    (Inl (Fatal ''Cannot use the option 'use_gp_model_for_validation = true' for calculating the training data loss''), [])"
  using assms by (simp add: BinaryMetric_Eval_def)

theorem Eval_train_fatal_witness:
  "BinaryMetric_Eval BinaryErrorMetric
     (BinaryMetric_Init BinaryErrorMetric ex_metadata 2 (new_Metric True))
     ex_score (Some ex_objective) =
    (Inl (Fatal ''Cannot use the option 'use_gp_model_for_validation = true' for calculating the training data loss''), [])"
  using Eval_train_fatal [of "BinaryMetric_Init BinaryErrorMetric ex_metadata 2 (new_Metric True)"
      ex_objective BinaryErrorMetric ex_score]
  by (simp add: ex_defs)

subsection \<open>Validation with the random-effects model\<close>

text \<open>
  Claim C2. For a validation data set without sample weights, initialised with
  \<open>num_data\<close> points, and an objective whose random-effects model is to be used for
  validation, \<^verbatim>\<open>Eval\<close> makes exactly one call, \<^verbatim>\<open>REModel::Predict\<close> with the score vector
  as offset, and returns \<open>1 / num_data\<close> times the sum of the point-wise losses of the
  labels against the predictions of that call. \<^verbatim>\<open>ConvertOutput\<close> is not called.
\<close>

theorem Eval_validation_uses_Predict:
  assumes "metadata_weights metadata = None" "HasGPModel obj" "UseGPModelForValidation obj"
    "\<not> this_metric_for_train_data m0"
  shows "BinaryMetric_Eval calc (BinaryMetric_Init calc metadata num_data m0) score (Some obj) =
     (Inr [1 / real num_data *
             (\<Sum>i<num_data. LossOnPoint calc (metadata_label metadata i)
                               (Predict (GetGPModel obj) num_data score i))],
      [REModel_Predict num_data score])"
  using assms
  by (simp add: BinaryMetric_Eval_def BinaryMetric_Init_def Metric_Init_def call_Predict_def
      fold_sum_loss Eval_return_def sum_list_upt)

theorem Eval_validation_uses_Predict_witness:
  "BinaryMetric_Eval BinaryErrorMetric
     (BinaryMetric_Init BinaryErrorMetric ex_metadata 2 (new_Metric False))
     ex_score (Some ex_objective) = (Inr [1], [REModel_Predict 2 ex_score])"
  using Eval_validation_uses_Predict [of ex_metadata ex_objective "new_Metric False"
      BinaryErrorMetric 2 ex_score]
  by (simp add: ex_defs lessThan_Suc numeral_2_eq_2)

subsection \<open>Sample weights\<close>

text \<open>
  Claim C3. With sample weights and an objective, whatever \<^verbatim>\<open>HasGPModel\<close>,
  \<^verbatim>\<open>UseGPModelForValidation\<close> and \<^verbatim>\<open>metric_for_train_data_\<close> are, \<^verbatim>\<open>Eval\<close> returns a
  value, the sum of the weighted point-wise losses of the converted scores divided by
  \<^verbatim>\<open>sum_weights_\<close>; its calls are one \<^verbatim>\<open>ConvertOutput\<close> per score and nothing else, so
  \<^verbatim>\<open>REModel::Predict\<close> is not called and the fatal error is not raised.
\<close>

theorem Eval_weighted_converts:
  assumes "this_weights m = Some w"
  shows "BinaryMetric_Eval calc m score (Some obj) =
     (Inr [(\<Sum>i<this_num_data m.
              LossOnPoint calc (this_label m i) (ConvertOutput obj (score i)) * w i)
             / this_sum_weights m],
      map (\<lambda>i. ObjectiveFunction_ConvertOutput (score i)) [0..<this_num_data m])"
  using assms
  by (simp add: BinaryMetric_Eval_def fold_sum_loss_ConvertOutput Eval_return_def sum_list_upt)

theorem Eval_weighted_converts_witness:
  "BinaryMetric_Eval BinaryErrorMetric
     (BinaryMetric_Init BinaryErrorMetric ex_metadata_weighted 2 (new_Metric True))
     ex_score (Some ex_objective) =
     (Inr [3 / 4], [ObjectiveFunction_ConvertOutput (9 / 10), ObjectiveFunction_ConvertOutput (7 / 10)])"
  using Eval_weighted_converts [of
      "BinaryMetric_Init BinaryErrorMetric ex_metadata_weighted 2 (new_Metric True)"
      ex_weights BinaryErrorMetric ex_score ex_objective]
  by (simp add: ex_defs lessThan_Suc numeral_2_eq_2 upt_2)

subsection \<open>The area under the curve of a single class\<close>

lemma mset_insert_by: "mset (insert_by comes_first x xs) = add_mset x (mset xs)"
  by (induction xs) simp_all

lemma mset_insertion_sort_by: "mset (insertion_sort_by comes_first xs) = mset xs"
  by (induction xs) (simp_all add: insertion_sort_by_def mset_insert_by)

text \<open>Without a positive label, \<^verbatim>\<open>cur_pos\<close> and \<^verbatim>\<open>sum_pos\<close> stay 0.\<close>

lemma fold_no_positive:
  assumes "\<forall>i\<in>set is. this_label m (sorted_idx ! i) \<le> 0" "cur_pos st = 0" "sum_pos st = 0"
  shows "cur_pos (fold (auc_step_no_weights m score sorted_idx) is st) = 0
       \<and> sum_pos (fold (auc_step_no_weights m score sorted_idx) is st) = 0"
  using assms
proof (induction "is" arbitrary: st)
  case Nil
  then show ?case by simp
next
  case (Cons i "is")
  let ?st = "auc_step_no_weights m score sorted_idx i st"
  from Cons.prems have "cur_pos ?st = 0" "sum_pos ?st = 0"
    by (simp_all add: auc_step_no_weights_def new_threshold_def Let_def)
  with Cons.IH [of ?st] Cons.prems(1) show ?case by simp
qed

text \<open>
  With positive labels only, \<^verbatim>\<open>cur_neg\<close> stays 0, and \<^verbatim>\<open>cur_pos + sum_pos\<close> counts the
  data points seen so far.
\<close>

lemma fold_no_negative:
  assumes "\<forall>i\<in>set is. 0 < this_label m (sorted_idx ! i)" "cur_neg st = 0"
  shows "cur_neg (fold (auc_step_no_weights m score sorted_idx) is st) = 0
       \<and> cur_pos (fold (auc_step_no_weights m score sorted_idx) is st)
           + sum_pos (fold (auc_step_no_weights m score sorted_idx) is st)
         = cur_pos st + sum_pos st + real (length is)"
  using assms
proof (induction "is" arbitrary: st)
  case Nil
  then show ?case by simp
next
  case (Cons i "is")
  let ?st = "auc_step_no_weights m score sorted_idx i st"
  from Cons.prems have "cur_neg ?st = 0"
    "cur_pos ?st + sum_pos ?st = cur_pos st + sum_pos st + 1"
    by (simp_all add: auc_step_no_weights_def new_threshold_def Let_def)
  with Cons.IH [of ?st] Cons.prems(1) show ?case by simp
qed

lemma sorted_idx_in_range:
  assumes "mset sorted_idx = mset [0..<n]" "i < n"
  shows "sorted_idx ! i < n"
proof -
  from assms(1) have "length sorted_idx = length [0..<n]" by (rule mset_eq_length)
  then have "i < length sorted_idx" using assms(2) by simp
  then have "sorted_idx ! i \<in> set sorted_idx" by (rule nth_mem)
  also from assms(1) have "set sorted_idx = set [0..<n]" by (rule mset_eq_setD)
  finally show ?thesis by simp
qed

text \<open>
  Claim C9, as stated: on every data set without sample weights whose labels are all of
  one class, \<^verbatim>\<open>AUCMetric::Eval\<close> returns exactly 1. This fails on the data set with no
  data point, where no label is positive: \<^verbatim>\<open>sorted_idx\<close> is empty and the function reads
  \<^verbatim>\<open>score[sorted_idx[0]]\<close>, so that it returns no value.
\<close>

theorem AUC_empty_out_of_range:
  "metadata_weights \<lparr>metadata_label = ex_label_negative, metadata_weights = None\<rparr> = None
   \<and> AUCMetric_Eval insertion_sort_by
       (AUCMetric_Init \<lparr>metadata_label = ex_label_negative, metadata_weights = None\<rparr> 0
          (new_Metric False)) ex_score3 None = Inl OutOfRange
   \<and> AUCMetric_Eval insertion_sort_by
       (AUCMetric_Init \<lparr>metadata_label = ex_label_negative, metadata_weights = None\<rparr> 0
          (new_Metric False)) ex_score3 None \<noteq> Inr [1]"
  by (simp add: AUCMetric_Eval_def AUCMetric_Init_def Metric_Init_def new_Metric_def
      insertion_sort_by_def)

text \<open>
  Claim C9, amended: on every data set without sample weights that has at least one data
  point and whose labels are all non-positive or all positive, \<^verbatim>\<open>AUCMetric::Eval\<close>
  returns exactly 1. The sorting function has to return a permutation of the indices it
  is given, as sorting in place does; nothing else about the order matters.
\<close>

theorem AUC_single_class:
  assumes perm: "mset (ParallelSort (\<lambda>a b. score a > score b) [0..<num_data]) = mset [0..<num_data]"
    and "metadata_weights metadata = None" "0 < num_data"
    and single: "(\<forall>i<num_data. metadata_label metadata i \<le> 0)
               \<or> (\<forall>i<num_data. 0 < metadata_label metadata i)"
  shows "AUCMetric_Eval ParallelSort (AUCMetric_Init metadata num_data m0) score objective = Inr [1]"
proof -
  define m where "m = AUCMetric_Init metadata num_data m0"
  define sorted_idx where "sorted_idx = ParallelSort (\<lambda>a b. score a > score b) [0..<num_data]"
  define st0 where "st0 = \<lparr>cur_pos = 0, sum_pos = 0, accum = 0, cur_neg = 0,
                      threshold = score (sorted_idx ! 0)\<rparr>"
  define st where "st = fold (auc_step_no_weights m score sorted_idx) [0..<num_data] st0"
  have m: "this_num_data m = num_data" "this_weights m = None"
    "this_sum_weights m = real num_data" "this_label m = metadata_label metadata"
    using assms(2) by (simp_all add: m_def AUCMetric_Init_def Metric_Init_def)
  have ne: "sorted_idx \<noteq> []"
  proof -
    from mset_eq_length [OF perm] have "length sorted_idx = num_data"
      by (simp add: sorted_idx_def)
    with \<open>0 < num_data\<close> show ?thesis by auto
  qed
  have range: "\<forall>i\<in>set [0..<num_data]. sorted_idx ! i < num_data"
    using sorted_idx_in_range [OF perm [folded sorted_idx_def]] by simp
  have final: "sum_pos st + cur_pos st = 0 \<or> sum_pos st + cur_pos st = real num_data"
  proof (rule disjE [OF single])
    assume "\<forall>i<num_data. metadata_label metadata i \<le> 0"
    with range have "\<forall>i\<in>set [0..<num_data]. this_label m (sorted_idx ! i) \<le> 0"
      by (simp add: m)
    from fold_no_positive [OF this, of st0 score] show ?thesis
      by (simp add: st_def st0_def)
  next
    assume "\<forall>i<num_data. 0 < metadata_label metadata i"
    with range have "\<forall>i\<in>set [0..<num_data]. 0 < this_label m (sorted_idx ! i)"
      by (simp add: m)
    from fold_no_negative [OF this, of st0 score] show ?thesis
      by (simp add: st_def st0_def add.commute)
  qed
  have "AUCMetric_Eval ParallelSort m score objective =
     Inr [if sum_pos st + cur_pos st > 0 \<and> sum_pos st + cur_pos st \<noteq> real num_data
          then (accum st + cur_neg st * (cur_pos st * 0.5 + sum_pos st))
                 / ((sum_pos st + cur_pos st) * (real num_data - (sum_pos st + cur_pos st)))
          else 1]"
    using ne by (simp add: AUCMetric_Eval_def m Let_def sorted_idx_def [symmetric]
        st0_def [symmetric] st_def [symmetric])
  with final show ?thesis unfolding m_def by auto
qed

theorem AUC_single_class_witness:
  "AUCMetric_Eval insertion_sort_by
     (AUCMetric_Init \<lparr>metadata_label = ex_label_positive, metadata_weights = None\<rparr> 3
        (new_Metric False)) ex_score3 None = Inr [1]
   \<and> AUCMetric_Eval insertion_sort_by
     (AUCMetric_Init \<lparr>metadata_label = ex_label_negative, metadata_weights = None\<rparr> 3
        (new_Metric False)) ex_score3 None = Inr [1]"
  using AUC_single_class [of insertion_sort_by ex_score3 3
      "\<lparr>metadata_label = ex_label_positive, metadata_weights = None\<rparr>" "new_Metric False" None]
    AUC_single_class [of insertion_sort_by ex_score3 3
      "\<lparr>metadata_label = ex_label_negative, metadata_weights = None\<rparr>" "new_Metric False" None]
  by (simp add: mset_insertion_sort_by ex_label_positive_def ex_label_negative_def)

section \<open>Properties of the latent-effects covariance engine\<close>

subsection \<open>Kernel entries\<close>

text \<open>
  Claim C5. For valid parameters \<open>\<sigma>\<^sub>1\<^sup>2 > 0\<close> and \<open>\<rho> > 0\<close> and any two inputs of a kernel
  component, \<^verbatim>\<open>BuildCovariance\<close> succeeds and its entry for the two inputs is
  \<open>\<sigma>\<^sub>1\<^sup>2 \<cdot> exp(- d / \<rho>)\<close> for the exponential kernel and \<open>\<sigma>\<^sub>1\<^sup>2 \<cdot> exp(- (d / \<rho>)\<^sup>2)\<close> for the
  squared-exponential kernel, \<open>d\<close> being the distance of the inputs.
\<close>

theorem kernel_entries:
  assumes "0 < sigma2_1" "0 < rho" "i < length coords" "j < length coords"
  shows "(\<exists>Cov_k. BuildCovariance (Kernel exponential coords rho0 v0) [sigma2_1, rho] = Inr Cov_k
            \<and> Cov_k ! i ! j = sigma2_1 * exp (- distance (coords ! i) (coords ! j) / rho))
       \<and> (\<exists>Cov_k. BuildCovariance (Kernel squared_exponential coords rho0 v0) [sigma2_1, rho] = Inr Cov_k
            \<and> Cov_k ! i ! j = sigma2_1 * exp (- (distance (coords ! i) (coords ! j) / rho)\<^sup>2))"
  using assms by simp

theorem kernel_entries_witness:
  "BuildCovariance (Kernel exponential ex_coords (1 / 5) (1 / 16)) [1 / 16, 1 / 5]
     = Inr [[1 / 16, 1 / 16 * exp (- 5)], [1 / 16 * exp (- 5), 1 / 16]]
   \<and> BuildCovariance (Kernel squared_exponential ex_coords (1 / 5) (1 / 16)) [1 / 16, 1 / 5]
     = Inr [[1 / 16, 1 / 16 * exp (- 25)], [1 / 16 * exp (- 25), 1 / 16]]"
  using kernel_entries [of "1 / 16" "1 / 5" 0 ex_coords 1 "1 / 5" "1 / 16"]
  by (simp add: ex_coords_def distance_def)

text \<open>
  The covariance that the R example simulates from, \<^verbatim>\<open>sigma2_1 * Sigma\<close>, has the entries
  of the kernel component, up to the \<open>10\<^sup>-\<^sup>1\<^sup>0\<close> that the example adds on the diagonal; its
  \<^verbatim>\<open>"gaussian"\<close> covariance function is the squared-exponential kernel.
\<close>

lemma simulate_entry:
  assumes "i < length coords" "j < length coords"
  shows "mat_add (map (map f) (map (\<lambda>s. map (distance s) coords) coords))
           (mat_scale c (identity (length coords))) ! i ! j
         = f (distance (coords ! i) (coords ! j)) + (if i = j then c else 0)"
  using assms by (simp add: mat_add_def mat_scale_def identity_def)

lemma simulate_Sigma_exponential:
  assumes "0 < sigma2_1" "0 < rho" "i < length coords" "j < length coords"
    and "BuildCovariance (Kernel exponential coords rho0 v0) [sigma2_1, rho] = Inr Cov_k"
  shows "\<exists>Sigma. simulate_Sigma ''exponential'' rho coords = Some Sigma
           \<and> sigma2_1 * (Sigma ! i ! j)
             = Cov_k ! i ! j + (if i = j then sigma2_1 / 10 ^ 10 else 0)"
proof -
  let ?Sigma = "mat_add (map (map (\<lambda>d. exp (- d / rho))) (map (\<lambda>s. map (distance s) coords) coords))
                  (mat_scale (1 / 10 ^ 10) (identity (length coords)))"
  have "simulate_Sigma ''exponential'' rho coords = Some ?Sigma"
    by (simp add: simulate_Sigma_def)
  moreover have "?Sigma ! i ! j = exp (- distance (coords ! i) (coords ! j) / rho)
      + (if i = j then 1 / 10 ^ 10 else 0)"
    using assms(3,4) by (rule simulate_entry)
  moreover from assms have "Cov_k ! i ! j = sigma2_1 * exp (- distance (coords ! i) (coords ! j) / rho)"
    by auto
  ultimately show ?thesis by (simp add: algebra_simps)
qed

lemma simulate_Sigma_gaussian:
  assumes "0 < sigma2_1" "0 < rho" "i < length coords" "j < length coords"
    and "BuildCovariance (Kernel squared_exponential coords rho0 v0) [sigma2_1, rho] = Inr Cov_k"
  shows "\<exists>Sigma. simulate_Sigma ''gaussian'' rho coords = Some Sigma
           \<and> sigma2_1 * (Sigma ! i ! j)
             = Cov_k ! i ! j + (if i = j then sigma2_1 / 10 ^ 10 else 0)"
proof -
  let ?Sigma = "mat_add (map (map (\<lambda>d. exp (- (d / rho)\<^sup>2))) (map (\<lambda>s. map (distance s) coords) coords))
                  (mat_scale (1 / 10 ^ 10) (identity (length coords)))"
  have "simulate_Sigma ''gaussian'' rho coords = Some ?Sigma"
    by (simp add: simulate_Sigma_def)
  moreover have "?Sigma ! i ! j = exp (- (distance (coords ! i) (coords ! j) / rho)\<^sup>2)
      + (if i = j then 1 / 10 ^ 10 else 0)"
    using assms(3,4) by (rule simulate_entry)
  moreover from assms have "Cov_k ! i ! j = sigma2_1 * exp (- (distance (coords ! i) (coords ! j) / rho)\<^sup>2)"
    by auto
  ultimately show ?thesis by (simp add: algebra_simps)
qed

subsection \<open>Additivity of the assembly\<close>

lemma map2_add_commute: "map2 (+) xs ys = map2 (+) ys (xs :: real list)"
proof (induction xs arbitrary: ys)
  case Nil
  then show ?case by simp
next
  case (Cons x xs)
  then show ?case by (cases ys) (simp_all add: add.commute)
qed

lemma mat_add_commute: "mat_add A B = mat_add B A"
  unfolding mat_add_def
proof (induction A arbitrary: B)
  case Nil
  then show ?case by simp
next
  case (Cons a A)
  then show ?case by (cases B) (simp_all add: map2_add_commute)
qed

lemma map2_add_assoc:
  "map2 (+) (map2 (+) xs ys) zs = map2 (+) xs (map2 (+) ys (zs :: real list))"
proof (induction xs arbitrary: ys zs)
  case Nil
  then show ?case by simp
next
  case (Cons x xs)
  then show ?case by (cases ys; cases zs) (simp_all add: add.assoc)
qed

lemma mat_add_assoc: "mat_add (mat_add A B) C = mat_add A (mat_add B C)"
  unfolding mat_add_def
proof (induction A arbitrary: B C)
  case Nil
  then show ?case by simp
next
  case (Cons a A)
  then show ?case by (cases B; cases C) (simp_all add: map2_add_assoc)
qed

text \<open>
  Claim C7. For a composite model that holds a kernel component and a grouped component,
  whose covariance blocks for their own hyperparameters are \<open>Cov\<^sub>1\<close> and \<open>Cov\<^sub>2\<close>, and a
  positive error variance, \<^verbatim>\<open>Assemble\<close> yields
  \<open>Z\<^sub>1 Cov\<^sub>1 Z\<^sub>1\<^sup>t + Z\<^sub>2 Cov\<^sub>2 Z\<^sub>2\<^sup>t + \<sigma>\<^sup>2 I\<close>.
\<close>

theorem Assemble_additive:
  assumes "BuildCovariance (Kernel type coords rho0 v0) [sigma2_1, rho] = Inr Cov_1"
    and "BuildCovariance (GroupedEffect group_data slope v1) [sigma2_2] = Inr Cov_2"
    and "0 < sigma2"
  shows "Assemble \<lparr>num_samples = n,
                    components = [Kernel type coords rho0 v0, GroupedEffect group_data slope v1]\<rparr>
           [sigma2, sigma2_1, rho, sigma2_2]
         = Inr (mat_add
                 (mat_add (sandwich (BuildIncidence (Kernel type coords rho0 v0)) Cov_1)
                          (sandwich (BuildIncidence (GroupedEffect group_data slope v1)) Cov_2))
                 (mat_scale sigma2 (identity n)))"
proof -
  let ?S1 = "sandwich (BuildIncidence (Kernel type coords rho0 v0)) Cov_1"
  let ?S2 = "sandwich (BuildIncidence (GroupedEffect group_data slope v1)) Cov_2"
  let ?N = "mat_scale sigma2 (identity n)"
  from assms have "Assemble \<lparr>num_samples = n,
                    components = [Kernel type coords rho0 v0, GroupedEffect group_data slope v1]\<rparr>
           [sigma2, sigma2_1, rho, sigma2_2] = Inr (mat_add (mat_add ?N ?S1) ?S2)"
    by (simp add: Assemble_def assemble_component_def)
  also have "mat_add (mat_add ?N ?S1) ?S2 = mat_add (mat_add ?S1 ?S2) ?N"
    by (metis mat_add_assoc mat_add_commute)
  finally show ?thesis .
qed

theorem Assemble_additive_witness:
  "Assemble \<lparr>num_samples = 2,
      components = [Kernel exponential ex_coords (1 / 5) (1 / 16), GroupedEffect [7, 9] None 1]\<rparr>
      [1 / 100, 1 / 16, 1 / 5, 1 / 4]
    = Inr [[1 / 16 + 1 / 4 + 1 / 100, 1 / 16 * exp (- 5)],
           [1 / 16 * exp (- 5), 1 / 16 + 1 / 4 + 1 / 100]]"
  using Assemble_additive [of exponential ex_coords "1 / 5" "1 / 16" "1 / 16" "1 / 5"
      "[[1 / 16, 1 / 16 * exp (- 5)], [1 / 16 * exp (- 5), 1 / 16]]"
      "[7, 9]" None 1 "1 / 4" "[[1 / 4, 0], [0, 1 / 4]]" "1 / 100" 2]
  by (simp add: ex_coords_def distance_def sandwich_def identity_def mat_mult_def dot_def
      mat_add_def mat_scale_def upt_rec numeral_2_eq_2)

subsection \<open>Validation at construction\<close>

text \<open>
  Claim C8. Constructing a kernel with a range \<open>\<rho> \<le> 0\<close>, or a grouped effect whose
  grouping key has fewer than two distinct levels, yields the error
  \<^const>\<open>InvalidParameter\<close> and no component.
\<close>

theorem construction_rejects:
  "(rho \<le> 0 \<longrightarrow> new_Kernel type coords rho sigma2_1 = Inl InvalidParameter)
   \<and> (card (set group_data) < 2 \<longrightarrow>
        new_GroupedEffect group_data slope variance = Inl InvalidParameter)"
  by (simp add: new_Kernel_def new_GroupedEffect_def card_set)

theorem construction_rejects_witness:
  "new_Kernel exponential ex_coords 0 (1 / 16) = Inl InvalidParameter
   \<and> new_GroupedEffect [3, 3, 3] None 1 = Inl InvalidParameter"
  using construction_rejects [of 0 exponential ex_coords "1 / 16" "[3, 3, 3]" None 1]
  by simp

subsection \<open>Divergence of the optimizer\<close>

declare optimize_loop.simps [simp del]

lemma factorization_failed_theta:
  "theta (factorization_failed cfg s) = theta s"
  "log_likelihood (factorization_failed cfg s) = log_likelihood s"
  by (simp_all add: factorization_failed_def)

lemma optimizer_step_valid:
  assumes "valid_state evaluate s"
  shows "valid_state evaluate (optimizer_step cfg evaluate s)"
  using assms
  by (auto simp: valid_state_def optimizer_step_def Let_def factorization_failed_theta
      split: option.splits prod.splits)

lemma optimizer_step_Diverged:
  assumes "status s = Iterate" "status (optimizer_step cfg evaluate s) = Diverged"
  shows "theta (optimizer_step cfg evaluate s) = theta s"
    and "OptimizerNonConvergence \<in> set (diagnostics (optimizer_step cfg evaluate s))"
  using assms
  by (auto simp: optimizer_step_def Let_def factorization_failed_def
      split: option.splits prod.splits if_splits)

text \<open>A run always halts in a final state.\<close>

lemma optimize_loop_final: "status (optimize_loop cfg evaluate s) \<noteq> Iterate"
proof (induction cfg evaluate s rule: optimize_loop.induct)
  case (1 cfg evaluate s)
  then show ?case by (subst optimize_loop.simps) auto
qed

lemma optimize_loop_Diverged:
  assumes "valid_state evaluate s" "status s = Iterate"
    "status (optimize_loop cfg evaluate s) = Diverged"
  shows "\<exists>p. status p = Iterate \<and> valid_state evaluate p
           \<and> optimize_loop cfg evaluate s = optimizer_step cfg evaluate p"
  using assms
proof (induction cfg evaluate s rule: optimize_loop.induct)
  case (1 cfg evaluate s)
  let ?s = "optimizer_step cfg evaluate s"
  from "1.prems"(2) have loop: "optimize_loop cfg evaluate s = optimize_loop cfg evaluate ?s"
    by (subst optimize_loop.simps) simp
  show ?case
  proof (cases "status ?s = Iterate")
    case True
    from "1.prems"(1) have "valid_state evaluate ?s" by (rule optimizer_step_valid)
    with "1.IH" [OF "1.prems"(2) _ True] "1.prems"(3) loop show ?thesis by simp
  next
    case False
    then have "optimize_loop cfg evaluate ?s = ?s" by (subst optimize_loop.simps) simp
    with loop "1.prems" show ?thesis by auto
  qed
qed

text \<open>
  Claim C6. When a run of the optimizer ends in \<^const>\<open>Diverged\<close>, the caller has been
  notified (the non-fatal condition \<^const>\<open>OptimizerNonConvergence\<close> is among the
  diagnostics), and the \<open>\<theta>\<close> of the final state is the one of the last iterating state,
  unchanged by the transition to \<^const>\<open>Diverged\<close>; the evaluation at this \<open>\<theta>\<close> succeeds
  and the log-likelihood held is the one of that evaluation.
\<close>

theorem Diverged_retains_valid_theta:
  assumes "CovarianceOptimizer cfg evaluate theta0 = Inr s" "status s = Diverged"
  shows "(\<exists>g. evaluate (theta s) = Some (log_likelihood s, g))
       \<and> OptimizerNonConvergence \<in> set (diagnostics s)
       \<and> (\<exists>p. status p = Iterate \<and> (\<exists>g. evaluate (theta p) = Some (log_likelihood p, g))
              \<and> s = optimizer_step cfg evaluate p \<and> theta s = theta p)"
proof -
  from assms(1) obtain ll g0 where ev0: "evaluate theta0 = Some (ll, g0)"
    and s: "s = optimize_loop cfg evaluate
                  ((optimizer_init cfg theta0)\<lparr>status := Iterate, log_likelihood := ll\<rparr>)"
    by (auto simp: CovarianceOptimizer_def split: option.splits)
  let ?s0 = "(optimizer_init cfg theta0)\<lparr>status := Iterate, log_likelihood := ll\<rparr>"
  have v0: "valid_state evaluate ?s0" and it0: "status ?s0 = Iterate"
    using ev0 by (simp_all add: valid_state_def optimizer_init_def)
  from optimize_loop_Diverged [OF v0 it0] assms(2) s obtain p where
    p: "status p = Iterate" "valid_state evaluate p" "s = optimizer_step cfg evaluate p"
    by auto
  from optimizer_step_Diverged [OF p(1), of cfg evaluate] assms(2) p(3)
  have th: "theta s = theta p" and d: "OptimizerNonConvergence \<in> set (diagnostics s)"
    by simp_all
  from p(2) have vp: "\<exists>g. evaluate (theta p) = Some (log_likelihood p, g)"
    by (auto simp: valid_state_def split: option.splits)
  from optimizer_step_valid [OF p(2), of cfg] p(3) have "valid_state evaluate s" by simp
  then have "\<exists>g. evaluate (theta s) = Some (log_likelihood s, g)"
    by (auto simp: valid_state_def split: option.splits)
  with d p(1) vp p(3) th show ?thesis by blast
qed

lemma ex_run:
  "CovarianceOptimizer ex_config ex_engine [0] =
     Inr \<lparr>status = Diverged, theta = [1 / 4], theta_prev = [0], log_likelihood = 1 / 4,
          step_size = 1 / 4, momentum = 1 / 2, failures = 1, iteration = 1,
          diagnostics = [FactorizationFailure, OptimizerNonConvergence]\<rparr>"
  by code_simp

theorem Diverged_retains_valid_theta_witness:
  "CovarianceOptimizer ex_config ex_engine [0] =
     Inr \<lparr>status = Diverged, theta = [1 / 4], theta_prev = [0], log_likelihood = 1 / 4,
          step_size = 1 / 4, momentum = 1 / 2, failures = 1, iteration = 1,
          diagnostics = [FactorizationFailure, OptimizerNonConvergence]\<rparr>
   \<and> ex_engine [1 / 4] = Some (1 / 4, [1])"
  using Diverged_retains_valid_theta [OF ex_run] by (simp add: ex_run ex_engine_def)

subsection \<open>Prediction output\<close>

text \<open>
  Claim C4. For every prediction query, the output holds the posterior mean of the random
  effect; it holds the posterior covariance if and only if the flag is set; the
  prediction of the tree ensemble is a field of its own, and the combined point
  prediction of the R example is the sum of the two.
\<close>

theorem Predict_outputs:
  "random_effect_mean (predict tree_Predict re_model data q predict_cov_mat)
     = mat_vec (cross_covariance q) (mat_vec (Sigma_inverse re_model) (residual re_model))
   \<and> random_effect_cov (predict tree_Predict re_model data q predict_cov_mat)
     = (if predict_cov_mat
        then Some (mat_sub (new_covariance q)
                     (mat_mult (mat_mult (cross_covariance q) (Sigma_inverse re_model))
                        (transpose (cross_covariance q))))
        else None)
   \<and> ((random_effect_cov (predict tree_Predict re_model data q predict_cov_mat) \<noteq> None) = predict_cov_mat)
   \<and> fixed_effect (predict tree_Predict re_model data q predict_cov_mat) = tree_Predict data
   \<and> y_pred (predict tree_Predict re_model data q predict_cov_mat)
     = map2 (+) (tree_Predict data)
         (mat_vec (cross_covariance q) (mat_vec (Sigma_inverse re_model) (residual re_model)))"
  by (simp add: predict_def RandomEffectsModel_Predict_def y_pred_def sandwich_def Let_def)

theorem Predict_outputs_witness:
  "predict ex_tree_Predict ex_re_model [[2, 0]] ex_query True
     = \<lparr>fixed_effect = [2], random_effect_mean = [1 / 2], random_effect_cov = Some [[3 / 8]]\<rparr>
   \<and> predict ex_tree_Predict ex_re_model [[2, 0]] ex_query False
     = \<lparr>fixed_effect = [2], random_effect_mean = [1 / 2], random_effect_cov = None\<rparr>
   \<and> y_pred (predict ex_tree_Predict ex_re_model [[2, 0]] ex_query True) = [5 / 2]"
  using Predict_outputs [of ex_tree_Predict ex_re_model "[[2, 0]]" ex_query True]
    Predict_outputs [of ex_tree_Predict ex_re_model "[[2, 0]]" ex_query False]
  by (simp add: predict_def RandomEffectsModel_Predict_def y_pred_def sandwich_def
      mat_vec_def mat_mult_def mat_sub_def dot_def ex_re_model_def ex_query_def
      ex_tree_Predict_def)

end
